theory Spec2Isabelle
  imports Main "HOL-Library.Log_Nat" "HOL-Library.Word"
begin

section \<open>Data model (fhevm-sdk/src/types/index.ts)\<close>

text \<open>
  A \<open>Uint8Array\<close> is a list of 8-bit words, a \<open>bigint\<close> an \<open>int\<close>. A JavaScript \<open>number\<close> is
  modelled by its integer value: the properties proved here only hand integers to the client
  (fractions, NaN and the infinities are outside the model).
\<close>

type_synonym bytes = "8 word list"

datatype Network = Sepolia | Localhost | Mainnet

record EncryptedInput =
  data :: bytes
  handles :: "int list"

text \<open>
  Thrown values are \<open>Error\<close> objects with a message. \<open>toString\<close> is what a template
  literal \<open>`${error}`\<close> makes of one (\<open>Error.prototype.toString\<close>).
\<close>

datatype js_error = Error string

fun toString :: "js_error \<Rightarrow> string" where
  "toString (Error msg) = (if msg = [] then ''Error'' else ''Error: '' @ msg)"

section \<open>The outside world\<close>

text \<open>
  The client talks to three collaborators that are not part of the repository: the ethers
  provider held in the configuration (\<open>getNetwork\<close>, \<open>getCode\<close>), the function
  \<open>createInstance\<close> of fhevmjs and the \<open>encrypt32\<close> method of the instance it returns.
  Each is a function on an outside state \<open>'x\<close> that returns an error or a value and the
  new outside state. The world of the model adds the log of the calls made so far, in order,
  and the console, so that "no call was made" is a statement about the log.
\<close>

datatype call =
    GetNetwork
  | GetCode string
  | CreateInstance int string "string option"
  | Encrypt32 int

record 'x world =
  ext :: 'x
  calls :: "call list"
  console :: "string list"

record 'x Provider =
  getNetwork :: "'x \<Rightarrow> (js_error + int) \<times> 'x"
  getCode :: "string \<Rightarrow> 'x \<Rightarrow> (js_error + string) \<times> 'x"

record 'x FhevmJsInstance =
  instance_encrypt32 :: "int \<Rightarrow> 'x \<Rightarrow> (js_error + bytes) \<times> 'x"

record 'x FhevmConfig =
  provider :: "'x Provider"
  network :: Network
  gatewayUrl :: "string option"
  aclAddress :: "string option"

type_synonym 'x createInstance =
  "int \<Rightarrow> string \<Rightarrow> string option \<Rightarrow> 'x \<Rightarrow> (js_error + 'x FhevmJsInstance) \<times> 'x"

definition perform :: "call \<Rightarrow> ('x \<Rightarrow> 'r \<times> 'x) \<Rightarrow> 'x world \<Rightarrow> 'r \<times> 'x world" where
  "perform c f w =
     (case f (ext w) of (r, x') \<Rightarrow> (r, w\<lparr>ext := x', calls := calls w @ [c]\<rparr>))"

definition console_warn :: "string \<Rightarrow> 'x world \<Rightarrow> 'x world" where
  "console_warn msg w = w\<lparr>console := console w @ [msg]\<rparr>"

section \<open>The client (fhevm-sdk/src/core/FhevmClient.ts)\<close>

record 'x FhevmClient =
  instance' :: "'x FhevmJsInstance option"
  config :: "'x FhevmConfig"
  initialized :: bool

definition createFhevmClient :: "'x FhevmConfig \<Rightarrow> 'x FhevmClient" where
  "createFhevmClient cfg = \<lparr>instance' = None, config = cfg, initialized = False\<rparr>"

definition isInitialized :: "'x FhevmClient \<Rightarrow> bool" where
  "isInitialized c = initialized c"

text \<open>
  \<open>Number(value)\<close> of a bigint is the double nearest to it, ties to even: exact up to 53
  significant bits, rounded to 53 bits beyond (finite below \<open>2 ^ 1024\<close>, which covers every
  64-bit value).
\<close>

definition Number_bigint :: "int \<Rightarrow> int" where
  "Number_bigint v =
     (let a = \<bar>v\<bar>; k = nat (bitlen a - 53) in
      if k = 0 then v
      else let q = a div 2 ^ k; r = a mod 2 ^ k; h = 2 ^ (k - 1);
               q' = (if h < r \<or> (r = h \<and> odd q) then q + 1 else q)
           in sgn v * (q' * 2 ^ k))"

definition NotInitialized :: js_error where
  "NotInitialized = Error ''FhevmClient not initialized. Call initialize() first.''"

definition default_aclAddress :: string where
  "default_aclAddress = ''0x2Fb4341bc8584e3aB78068BcD8B1aC42E25BEED5''"

text \<open>\<open>this.config.aclAddress || default\<close>: the default also replaces an empty string.\<close>

definition acl_of :: "'x FhevmClient \<Rightarrow> string" where
  "acl_of c =
     (case aclAddress (config c) of
        None \<Rightarrow> default_aclAddress
      | Some a \<Rightarrow> if a = [] then default_aclAddress else a)"

text \<open>
  \<open>getPublicKey\<close>: the body of the \<open>try\<close> block, then the \<open>catch\<close> around it, which
  warns on the console and returns the placeholder.
\<close>

definition getPublicKey_try :: "'x FhevmClient \<Rightarrow> 'x world \<Rightarrow> (js_error + string) \<times> 'x world" where
  "getPublicKey_try c w =
     (case perform (GetCode (acl_of c)) (getCode (provider (config c)) (acl_of c)) w of
        (Inl e, w') \<Rightarrow> (Inl e, w')
      | (Inr code, w') \<Rightarrow>
          if code = ''0x'' then (Inl (Error ''ACL contract not found''), w')
          else (Inr ''0x'', w'))"

definition getPublicKey :: "'x FhevmClient \<Rightarrow> 'x world \<Rightarrow> string \<times> 'x world" where
  "getPublicKey c w =
     (case getPublicKey_try c w of
        (Inr key, w') \<Rightarrow> (key, w')
      | (Inl e, w') \<Rightarrow> (''0x'', console_warn ''Failed to fetch public key, using default'' w'))"

definition init_failed :: "js_error \<Rightarrow> js_error" where
  "init_failed e = Error (''Failed to initialize fhEVM: '' @ toString e)"

text \<open>
  \<open>initialize\<close>, each call awaited in turn. The first argument is \<open>createInstance\<close> of
  fhevmjs. A failure leaves the fields as they were.
\<close>

definition initialize ::
  "'x createInstance \<Rightarrow> 'x FhevmClient \<Rightarrow> 'x world \<Rightarrow> (js_error + unit) \<times> 'x FhevmClient \<times> 'x world" where
  "initialize fhevmjs c w =
     (if initialized c then (Inr (), c, w)
      else
        case perform GetNetwork (getNetwork (provider (config c))) w of
          (Inl e, w1) \<Rightarrow> (Inl (init_failed e), c, w1)
        | (Inr chainId, w1) \<Rightarrow>
            (case getPublicKey c w1 of
               (publicKey, w2) \<Rightarrow>
                 (case perform (CreateInstance (Number_bigint chainId) publicKey (gatewayUrl (config c)))
                         (fhevmjs (Number_bigint chainId) publicKey (gatewayUrl (config c))) w2 of
                    (Inl e, w3) \<Rightarrow> (Inl (init_failed e), c, w3)
                  | (Inr i, w3) \<Rightarrow> (Inr (), c\<lparr>instance' := Some i, initialized := True\<rparr>, w3))))"

definition encrypt_failed :: "js_error \<Rightarrow> js_error" where
  "encrypt_failed e = Error (''Failed to encrypt value: '' @ toString e)"

definition encrypt32 ::
  "'x FhevmClient \<Rightarrow> int \<Rightarrow> 'x world \<Rightarrow> (js_error + EncryptedInput) \<times> 'x world" where
  "encrypt32 c v w =
     (if \<not> initialized c \<or> instance' c = None then (Inl NotInitialized, w)
      else
        case instance' c of
          None \<Rightarrow> (Inl NotInitialized, w)
        | Some i \<Rightarrow>
            (case perform (Encrypt32 v) (instance_encrypt32 i v) w of
               (Inr encrypted, w') \<Rightarrow> (Inr \<lparr>data = encrypted, handles = []\<rparr>, w')
             | (Inl e, w') \<Rightarrow> (Inl (encrypt_failed e), w')))"

definition encrypt64 ::
  "'x FhevmClient \<Rightarrow> int \<Rightarrow> 'x world \<Rightarrow> (js_error + EncryptedInput) \<times> 'x world" where
  "encrypt64 c v w =
     (if \<not> initialized c \<or> instance' c = None then (Inl NotInitialized, w)
      else
        case instance' c of
          None \<Rightarrow> (Inl NotInitialized, w)
        | Some i \<Rightarrow>
            (case perform (Encrypt32 (Number_bigint v)) (instance_encrypt32 i (Number_bigint v)) w of
               (Inr encrypted, w') \<Rightarrow> (Inr \<lparr>data = encrypted, handles = []\<rparr>, w')
             | (Inl e, w') \<Rightarrow> (Inl (encrypt_failed e), w')))"

section \<open>initialize as an asynchronous task\<close>

text \<open>
  An \<open>async\<close> function runs until its next \<open>await\<close>, where it has made the call it waits
  for, and is resumed when that call has settled. A task of \<open>initialize\<close> is therefore at
  one of three awaits, holding the outcome the pending call settles with, or has settled
  itself. \<open>initialize_start\<close> is the part that runs when \<open>initialize()\<close> is invoked,
  \<open>initialize_resume\<close> the part that runs when the task is resumed. Between the two, other
  tasks may run. The outcome of a call is fixed by the outside state at the time of the call.
  When \<open>getCode\<close> has settled, the rest of \<open>getPublicKey\<close> and the call of
  \<open>createInstance\<close> that follows it in \<open>initialize\<close> are taken as one step.
\<close>

datatype 'x init_task =
    AwaitGetNetwork "js_error + int"
  | AwaitGetCode int "js_error + string"
  | AwaitCreateInstance "js_error + 'x FhevmJsInstance"
  | Settled "js_error + unit"

definition initialize_start :: "'x FhevmClient \<Rightarrow> 'x world \<Rightarrow> 'x init_task \<times> 'x world" where
  "initialize_start c w =
     (if initialized c then (Settled (Inr ()), w)
      else case perform GetNetwork (getNetwork (provider (config c))) w of
             (r, w1) \<Rightarrow> (AwaitGetNetwork r, w1))"

fun initialize_resume ::
  "'x createInstance \<Rightarrow> 'x init_task \<Rightarrow> 'x FhevmClient \<Rightarrow> 'x world \<Rightarrow>
     'x init_task \<times> 'x FhevmClient \<times> 'x world" where
  "initialize_resume fhevmjs (AwaitGetNetwork (Inl e)) c w = (Settled (Inl (init_failed e)), c, w)"
| "initialize_resume fhevmjs (AwaitGetNetwork (Inr chainId)) c w =
     (case perform (GetCode (acl_of c)) (getCode (provider (config c)) (acl_of c)) w of
        (r, w1) \<Rightarrow> (AwaitGetCode chainId r, c, w1))"
| "initialize_resume fhevmjs (AwaitGetCode chainId r) c w =
     (let (publicKey, w1) =
            (case r of
               Inr code \<Rightarrow>
                 if code = ''0x''
                 then (''0x'', console_warn ''Failed to fetch public key, using default'' w)
                 else (''0x'', w)
             | Inl e \<Rightarrow> (''0x'', console_warn ''Failed to fetch public key, using default'' w))
      in case perform (CreateInstance (Number_bigint chainId) publicKey (gatewayUrl (config c)))
                (fhevmjs (Number_bigint chainId) publicKey (gatewayUrl (config c))) w1 of
           (r', w2) \<Rightarrow> (AwaitCreateInstance r', c, w2))"
| "initialize_resume fhevmjs (AwaitCreateInstance (Inl e)) c w = (Settled (Inl (init_failed e)), c, w)"
| "initialize_resume fhevmjs (AwaitCreateInstance (Inr i)) c w =
     (Settled (Inr ()), c\<lparr>instance' := Some i, initialized := True\<rparr>, w)"
| "initialize_resume fhevmjs (Settled r) c w = (Settled r, c, w)"

text \<open>
  A system is one client, the world and the tasks of \<open>initialize\<close> in flight on that
  client. \<open>Call\<close> is a caller invoking \<open>initialize()\<close>; \<open>Resume k\<close> resumes task \<open>k\<close>.
\<close>

datatype action = Call | Resume nat

type_synonym 'x system = "'x FhevmClient \<times> 'x world \<times> 'x init_task list"

fun step :: "'x createInstance \<Rightarrow> action \<Rightarrow> 'x system \<Rightarrow> 'x system" where
  "step fhevmjs Call (c, w, ts) =
     (case initialize_start c w of (t, w') \<Rightarrow> (c, w', ts @ [t]))"
| "step fhevmjs (Resume k) (c, w, ts) =
     (if k < length ts
      then case initialize_resume fhevmjs (ts ! k) c w of (t, c', w') \<Rightarrow> (c', w', ts[k := t])
      else (c, w, ts))"

fun run :: "'x createInstance \<Rightarrow> action list \<Rightarrow> 'x system \<Rightarrow> 'x system" where
  "run fhevmjs [] s = s"
| "run fhevmjs (a # as) s = run fhevmjs as (step fhevmjs a s)"

section \<open>The provider component (fhevm-sdk/src/hooks/useFhevm.ts)\<close>

record 'x FhevmContextValue =
  client :: "'x FhevmClient option"
  isInitialized_ctx :: bool
  error :: "js_error option"

text \<open>The function \<open>init\<close> that the effect of \<open>FhevmProvider\<close> runs, awaited.\<close>

definition FhevmProvider_init ::
  "'x createInstance \<Rightarrow> 'x FhevmConfig \<Rightarrow> 'x FhevmContextValue \<Rightarrow> 'x world \<Rightarrow>
     'x FhevmContextValue \<times> 'x world" where
  "FhevmProvider_init fhevmjs cfg ctx w =
     (case initialize fhevmjs (createFhevmClient cfg) w of
        (Inr u, fhevmClient, w') \<Rightarrow> (ctx\<lparr>client := Some fhevmClient, isInitialized_ctx := True\<rparr>, w')
      | (Inl err, fhevmClient, w') \<Rightarrow> (ctx\<lparr>error := Some err\<rparr>, w'))"

section \<open>The retry utility\<close>

text \<open>
  Modelled from the spec: \<open>retryWithBackoff\<close> of fhevm-sdk/src/utils/index.ts is missing
  from the sources, which hold only its signature and defaults (docs/api-reference.md).
  The definitions follow section 4.1 of the specification: attempt 1 is the initial try; on
  a failure of attempt \<open>attemptNumber\<close> the policy signals exhaustion if
  \<open>attemptNumber > maxRetries\<close>, and otherwise computes the delay
  \<open>baseDelay * 2 ^ (attemptNumber - 1)\<close>, for which the caller sleeps before it tries
  again; on exhaustion the last error is passed on as it is.
\<close>

datatype decision = Exhausted | RetryAfter nat

text \<open>
  Modelled from the spec: the policy of section 4.1, the decision after a failure of attempt
  \<open>attemptNumber\<close>.
\<close>

definition RetryPolicy :: "nat \<Rightarrow> nat \<Rightarrow> nat \<Rightarrow> decision" where
  "RetryPolicy attemptNumber maxRetries baseDelay =
     (if attemptNumber > maxRetries then Exhausted
      else RetryAfter (baseDelay * 2 ^ (attemptNumber - 1)))"

record 'a retried =
  result :: "js_error + 'a"
  attempts :: nat
  delays :: "nat list"

text \<open>
  Modelled from the spec: the loop of \<open>retryWithBackoff\<close> from attempt \<open>attemptNumber\<close>
  on, as section 4.1 describes the caller of the policy; \<open>ds\<close> are the delays slept so
  far, in order. The operation sees the world only, not the delays.
\<close>

function retry_from ::
  "('w \<Rightarrow> (js_error + 'a) \<times> 'w) \<Rightarrow> nat \<Rightarrow> nat \<Rightarrow> nat \<Rightarrow> nat list \<Rightarrow> 'w \<Rightarrow> 'a retried \<times> 'w" where
  "retry_from fn maxRetries baseDelay attemptNumber ds w =
     (case fn w of
        (Inr v, w') \<Rightarrow> (\<lparr>result = Inr v, attempts = attemptNumber, delays = ds\<rparr>, w')
      | (Inl e, w') \<Rightarrow>
          (case RetryPolicy attemptNumber maxRetries baseDelay of
             Exhausted \<Rightarrow> (\<lparr>result = Inl e, attempts = attemptNumber, delays = ds\<rparr>, w')
           | RetryAfter delay \<Rightarrow>
               retry_from fn maxRetries baseDelay (attemptNumber + 1) (ds @ [delay]) w'))"
  by pat_completeness auto
termination
  by (relation "measure (\<lambda>(fn, maxRetries, baseDelay, attemptNumber, ds, w). Suc maxRetries - attemptNumber)")
     (auto simp: RetryPolicy_def split: if_splits)

declare retry_from.simps [simp del]

text \<open>
  Modelled from the spec: \<open>retryWithBackoff(fn, maxRetries?, baseDelay?)\<close> with the defaults
  3 and 1000 ms of section 4.1 and docs/api-reference.md, starting at attempt 1 with no delay.
\<close>

definition retryWithBackoff ::
  "('w \<Rightarrow> (js_error + 'a) \<times> 'w) \<Rightarrow> nat option \<Rightarrow> nat option \<Rightarrow> 'w \<Rightarrow> 'a retried \<times> 'w" where
  "retryWithBackoff fn maxRetries baseDelay w =
     retry_from fn (case maxRetries of None \<Rightarrow> 3 | Some m \<Rightarrow> m)
       (case baseDelay of None \<Rightarrow> 1000 | Some d \<Rightarrow> d) 1 [] w"

section \<open>Example collaborators\<close>

definition ok_instance :: "'x FhevmJsInstance" where
  "ok_instance = \<lparr>instance_encrypt32 = (\<lambda>v x. (Inr [1, 2, 3], x))\<rparr>"

definition ok_provider :: "'x Provider" where
  "ok_provider = \<lparr>getNetwork = (\<lambda>x. (Inr 11155111, x)),
                   getCode = (\<lambda>a x. (Inr ''0x6080'', x))\<rparr>"

definition ok_createInstance :: "'x createInstance" where
  "ok_createInstance = (\<lambda>chainId publicKey gw x. (Inr ok_instance, x))"

definition ok_config :: "'x FhevmConfig" where
  "ok_config = \<lparr>provider = ok_provider, network = Sepolia, gatewayUrl = None, aclAddress = None\<rparr>"

definition ready_client :: "unit FhevmClient" where
  "ready_client = \<lparr>instance' = Some ok_instance, config = ok_config, initialized = True\<rparr>"

definition world0 :: "unit world" where
  "world0 = \<lparr>ext = (), calls = [], console = []\<rparr>"

text \<open>A provider whose \<open>getCode\<close> fails, and one that finds no contract.\<close>

definition nocode_config :: "'x FhevmConfig" where
  "nocode_config =
     ok_config\<lparr>provider := \<lparr>getNetwork = (\<lambda>x. (Inr 11155111, x)),
                             getCode = (\<lambda>a x. (Inl (Error ''network down''), x))\<rparr>\<rparr>"

definition empty_config :: "'x FhevmConfig" where
  "empty_config =
     ok_config\<lparr>provider := \<lparr>getNetwork = (\<lambda>x. (Inr 11155111, x)),
                             getCode = (\<lambda>a x. (Inr ''0x'', x))\<rparr>\<rparr>"

text \<open>
  Collaborators whose outside state counts the calls: an instance whose \<open>encrypt32\<close> times
  out on the first call only, a provider whose \<open>getNetwork\<close> fails on the first call only,
  and an operation that fails on every call, with an error that tells the calls apart.
\<close>

definition flaky_instance :: "nat FhevmJsInstance" where
  "flaky_instance =
     \<lparr>instance_encrypt32 = (\<lambda>v n. (if n = 0 then Inl (Error ''timeout'') else Inr [1, 2, 3], Suc n))\<rparr>"

definition flaky_client :: "nat FhevmClient" where
  "flaky_client = \<lparr>instance' = Some flaky_instance, config = ok_config, initialized = True\<rparr>"

definition flaky_config :: "nat FhevmConfig" where
  "flaky_config =
     ok_config\<lparr>provider := \<lparr>getNetwork = (\<lambda>n. (if n = 0 then Inl (Error ''offline'') else Inr 1, Suc n)),
                             getCode = (\<lambda>a n. (Inr ''0x6080'', Suc n))\<rparr>\<rparr>"

definition nat_world0 :: "nat world" where
  "nat_world0 = \<lparr>ext = 0, calls = [], console = []\<rparr>"

definition failing_fn :: "nat \<Rightarrow> (js_error + unit) \<times> nat" where
  "failing_fn n = (Inl (Error (replicate (Suc n) (CHR ''x''))), Suc n)"

text \<open>A \<open>createInstance\<close> that rejects every key.\<close>

definition failing_createInstance :: "'x createInstance" where
  "failing_createInstance = (\<lambda>chainId publicKey gw x. (Inl (Error ''bad public key''), x))"

text \<open>
  A schedule: five callers invoke \<open>initialize()\<close> before any of the calls has settled,
  then the five tasks are resumed in turn until each has settled.
\<close>

definition five_calls :: "action list" where
  "five_calls =
     [Call, Call, Call, Call, Call,
      Resume 0, Resume 1, Resume 2, Resume 3, Resume 4,
      Resume 0, Resume 1, Resume 2, Resume 3, Resume 4,
      Resume 0, Resume 1, Resume 2, Resume 3, Resume 4]"

text \<open>
  A schedule in which invocations and resumptions alternate: no task has settled when the
  second and the third caller invoke \<open>initialize()\<close>.
\<close>

definition interleaved_calls :: "action list" where
  "interleaved_calls = [Call, Resume 0, Call, Resume 0, Call]"

section \<open>Facts about the model\<close>

lemma perform_calls: "calls (snd (perform k f w)) = calls w @ [k]"
  by (simp add: perform_def split: prod.splits)

text \<open>\<open>Number\<close> on known values: exact below \<open>2 ^ 53\<close>, ties to even above.\<close>

lemma Number_bigint_examples:
  "Number_bigint 9007199254740993 = 9007199254740992"
  "Number_bigint 9007199254740995 = 9007199254740996"
  "Number_bigint 18446744073709551615 = 18446744073709551616"
  "Number_bigint (- 9007199254740993) = - 9007199254740992"
  by code_simp+

lemma bitlen_small: "0 \<le> v \<Longrightarrow> v < 2 ^ 53 \<Longrightarrow> nat (bitlen v - 53) = 0"
proof -
  assume a: "0 \<le> v" "v < 2 ^ 53"
  show ?thesis
  proof (cases "v = 0")
    case True
    then show ?thesis by simp
  next
    case False
    with a have pos: "0 < v" by simp
    have "bitlen v \<le> 53"
    proof (rule ccontr)
      assume "\<not> bitlen v \<le> 53"
      then have "53 \<le> nat (bitlen v - 1)" by simp
      then have "(2::int) ^ 53 \<le> 2 ^ nat (bitlen v - 1)" by (rule power_increasing) simp
      also have "\<dots> \<le> v" using bitlen_bounds [OF pos] by simp
      finally show False using a by simp
    qed
    then show ?thesis by simp
  qed
qed

lemma Number_bigint_exact: "0 \<le> v \<Longrightarrow> v < 2 ^ 53 \<Longrightarrow> Number_bigint v = v"
  using bitlen_small [of v] by (simp add: Number_bigint_def Let_def)



lemma initialize_ready: "initialized c \<Longrightarrow> initialize f c w = (Inr (), c, w)"
  by (simp add: initialize_def)

lemma initialize_success_sets_flag: "initialize f c w = (Inr u, c', w') \<Longrightarrow> initialized c'"
  by (auto simp: initialize_def split: if_splits prod.splits sum.splits)

lemma initialize_failure_keeps_client:
  "initialize f c w = (Inl e, c', w') \<Longrightarrow> c' = c \<and> \<not> initialized c"
  by (auto simp: initialize_def split: if_splits prod.splits sum.splits)

lemma initialize_first_call:
  "\<not> initialized c \<Longrightarrow> \<exists>rest. calls (snd (snd (initialize f c w))) = calls w @ GetNetwork # rest"
  by (auto simp: initialize_def perform_def getPublicKey_def getPublicKey_try_def console_warn_def
      split: prod.splits sum.splits if_splits)

lemma getPublicKey_placeholder: "fst (getPublicKey c w) = ''0x''"
  by (simp add: getPublicKey_def getPublicKey_try_def split: prod.splits sum.splits)

text \<open>What \<open>initialize\<close> does on a client whose flag is unset, from the answers of the
  collaborators.\<close>

lemma initialize_network_failure:
  "\<not> initialized c \<Longrightarrow> getNetwork (provider (config c)) (ext w) = (Inl e, x1) \<Longrightarrow>
     initialize f c w =
       (Inl (Error (''Failed to initialize fhEVM: '' @ toString e)), c,
        w\<lparr>ext := x1, calls := calls w @ [GetNetwork]\<rparr>)"
  by (simp add: initialize_def perform_def init_failed_def)

lemma getPublicKey_outcome:
  "getCode (provider (config c)) (acl_of c) (ext w) = (rc, x2) \<Longrightarrow>
     fst (getPublicKey c w) = ''0x'' \<and>
     ext (snd (getPublicKey c w)) = x2 \<and>
     calls (snd (getPublicKey c w)) = calls w @ [GetCode (acl_of c)] \<and>
     console (snd (getPublicKey c w)) =
       console w @ (if \<exists>code. rc = Inr code \<and> code \<noteq> ''0x'' then []
                    else [''Failed to fetch public key, using default''])"
  by (cases rc) (auto simp: getPublicKey_def getPublicKey_try_def perform_def console_warn_def)

lemma initialize_instance_outcome:
  assumes "\<not> initialized c"
    and "getNetwork (provider (config c)) (ext w) = (Inr chainId, x1)"
    and "getCode (provider (config c)) (acl_of c) x1 = (rc, x2)"
    and "f (Number_bigint chainId) ''0x'' (gatewayUrl (config c)) x2 = (ri, x3)"
  shows "fst (initialize f c w) =
           (case ri of Inl e \<Rightarrow> Inl (Error (''Failed to initialize fhEVM: '' @ toString e))
                     | Inr i \<Rightarrow> Inr ()) \<and>
         fst (snd (initialize f c w)) =
           (case ri of Inl e \<Rightarrow> c | Inr i \<Rightarrow> c\<lparr>instance' := Some i, initialized := True\<rparr>) \<and>
         ext (snd (snd (initialize f c w))) = x3 \<and>
         calls (snd (snd (initialize f c w))) =
           calls w @ [GetNetwork, GetCode (acl_of c),
                      CreateInstance (Number_bigint chainId) ''0x'' (gatewayUrl (config c))] \<and>
         console (snd (snd (initialize f c w))) =
           console w @ (if \<exists>code. rc = Inr code \<and> code \<noteq> ''0x'' then []
                        else [''Failed to fetch public key, using default''])"
proof -
  define w1 where "w1 = w\<lparr>ext := x1, calls := calls w @ [GetNetwork]\<rparr>"
  have n: "perform GetNetwork (getNetwork (provider (config c))) w = (Inr chainId, w1)"
    using assms(2) by (simp add: perform_def w1_def)
  obtain k w2 where pk: "getPublicKey c w1 = (k, w2)" by (cases "getPublicKey c w1")
  have "getCode (provider (config c)) (acl_of c) (ext w1) = (rc, x2)"
    using assms(3) by (simp add: w1_def)
  from getPublicKey_outcome [OF this] pk
  have k: "k = ''0x''" and w2: "ext w2 = x2" "calls w2 = calls w @ [GetNetwork, GetCode (acl_of c)]"
    "console w2 = console w @ (if \<exists>code. rc = Inr code \<and> code \<noteq> ''0x'' then []
                        else [''Failed to fetch public key, using default''])"
    by (simp_all add: w1_def)
  show ?thesis
    using assms(1,4) n pk k w2
    by (cases ri) (simp_all add: initialize_def perform_def init_failed_def)
qed

text \<open>
  The task model and the awaited \<open>initialize\<close> are the same code: one caller, resumed three
  times with nothing in between, ends with the result, the client and the world of
  \<open>initialize\<close>.
\<close>

lemma initialize_as_task:
  "\<exists>r c' w'. run f [Call, Resume 0, Resume 0, Resume 0] (c, w, []) = (c', w', [Settled r]) \<and>
     initialize f c w = (r, c', w')"
  by (auto simp: initialize_def initialize_start_def perform_def getPublicKey_def
      getPublicKey_try_def console_warn_def Let_def split: prod.splits sum.splits if_splits)

lemma step_Call_uninitialized:
  "\<not> initialized c \<Longrightarrow>
     \<exists>r w'. step f Call (c, w, ts) = (c, w', ts @ [AwaitGetNetwork r]) \<and>
            calls w' = calls w @ [GetNetwork]"
  by (simp add: initialize_start_def perform_def split: prod.splits)

lemma run_Calls_uninitialized:
  "\<not> initialized c \<Longrightarrow> run f (replicate n Call) (c, w, ts) = (c', w', ts') \<Longrightarrow>
     c' = c \<and> calls w' = calls w @ replicate n GetNetwork \<and> length ts' = length ts + n"
proof (induction n arbitrary: w ts)
  case 0
  then show ?case by simp
next
  case (Suc n)
  from step_Call_uninitialized [OF Suc.prems(1), of f w ts]
  obtain r w1 where st: "step f Call (c, w, ts) = (c, w1, ts @ [AwaitGetNetwork r])"
    and cw: "calls w1 = calls w @ [GetNetwork]" by blast
  from Suc.prems(2) st have "run f (replicate n Call) (c, w1, ts @ [AwaitGetNetwork r]) = (c', w', ts')"
    by simp
  from Suc.IH [OF Suc.prems(1) this] cw show ?case
    by (simp add: replicate_append_same)
qed

lemma FhevmProvider_init_calls:
  "\<exists>rest. calls (snd (FhevmProvider_init f cfg ctx w)) = calls w @ GetNetwork # rest"
proof -
  have "\<not> initialized (createFhevmClient cfg)" by (simp add: createFhevmClient_def)
  from initialize_first_call [OF this, of f w]
  show ?thesis
    by (auto simp: FhevmProvider_init_def split: prod.splits sum.splits)
qed

text \<open>
  Schedules. A task that has settled stays settled, resuming a task makes no \<open>getNetwork\<close>
  call, and the client changes only when a task settles successfully.
\<close>

lemma resume_no_GetNetwork:
  assumes r: "initialize_resume f t c w = (t', c', w')"
  shows "count_list (calls w') GetNetwork = count_list (calls w) GetNetwork \<and>
     (t' = Settled (Inr ()) \<or> c' = c)"
proof (cases t)
  case (AwaitGetNetwork x)
  with r show ?thesis
    by (cases x) (auto simp: perform_def split: prod.splits)
next
  case (AwaitGetCode chainId x)
  with r show ?thesis
    by (cases x) (auto simp: perform_def console_warn_def Let_def split: prod.splits if_splits)
next
  case (AwaitCreateInstance x)
  with r show ?thesis by (cases x) auto
next
  case (Settled x)
  with r show ?thesis by auto
qed

lemma step_keeps_settled:
  assumes "Settled (Inr ()) \<in> set ts" and "step f a (c, w, ts) = (c', w', ts')"
  shows "Settled (Inr ()) \<in> set ts'"
proof (cases a)
  case Call
  with assms show ?thesis by (auto split: prod.splits)
next
  case (Resume k)
  show ?thesis
  proof (cases "k < length ts")
    case False
    with assms Resume show ?thesis by simp
  next
    case True
    obtain t c1 w1 where r: "initialize_resume f (ts ! k) c w = (t, c1, w1)"
      by (cases "initialize_resume f (ts ! k) c w")
    with assms Resume True have ts': "ts' = ts[k := t]" by simp
    from assms(1) obtain j where j: "j < length ts" "ts ! j = Settled (Inr ())"
      by (auto simp: in_set_conv_nth)
    show ?thesis
    proof (cases "j = k")
      case True
      with j r have "t = Settled (Inr ())" by simp
      with ts' \<open>k < length ts\<close> show ?thesis by (simp add: set_update_memI)
    next
      case False
      with j ts' have "ts' ! j = Settled (Inr ())" "j < length ts'" by simp_all
      then show ?thesis by (metis nth_mem)
    qed
  qed
qed

lemma run_keeps_settled:
  "Settled (Inr ()) \<in> set ts \<Longrightarrow> run f as (c, w, ts) = (c', w', ts') \<Longrightarrow>
     Settled (Inr ()) \<in> set ts'"
proof (induction as arbitrary: c w ts)
  case Nil
  then show ?case by simp
next
  case (Cons a as)
  obtain c1 w1 ts1 where s: "step f a (c, w, ts) = (c1, w1, ts1)"
    by (cases "step f a (c, w, ts)")
  from step_keeps_settled [OF Cons.prems(1) s] have "Settled (Inr ()) \<in> set ts1" .
  moreover from Cons.prems(2) s have "run f as (c1, w1, ts1) = (c', w', ts')" by simp
  ultimately show ?case by (rule Cons.IH)
qed

lemma step_unfinished:
  assumes u: "\<not> initialized c" and s: "step f a (c, w, ts) = (c1, w1, ts1)"
    and n: "Settled (Inr ()) \<notin> set ts1"
  shows "c1 = c \<and>
     count_list (calls w1) GetNetwork = count_list (calls w) GetNetwork + (if a = Call then 1 else 0) \<and>
     length ts1 = length ts + (if a = Call then 1 else 0)"
proof (cases a)
  case Call
  with u s show ?thesis
    by (auto simp: initialize_start_def perform_def split: prod.splits)
next
  case (Resume k)
  show ?thesis
  proof (cases "k < length ts")
    case False
    with s Resume show ?thesis by simp
  next
    case True
    obtain t c2 w2 where r: "initialize_resume f (ts ! k) c w = (t, c2, w2)"
      by (cases "initialize_resume f (ts ! k) c w")
    with s Resume True have eq: "c1 = c2" "w1 = w2" "ts1 = ts[k := t]" by simp_all
    from eq(3) True have "t \<in> set ts1" by (simp add: set_update_memI)
    with n have "t \<noteq> Settled (Inr ())" by auto
    with resume_no_GetNetwork [OF r] eq Resume show ?thesis by simp
  qed
qed

lemma run_unfinished:
  "\<not> initialized c \<Longrightarrow> run f as (c, w, ts) = (c', w', ts') \<Longrightarrow> Settled (Inr ()) \<notin> set ts' \<Longrightarrow>
     c' = c \<and>
     count_list (calls w') GetNetwork = count_list (calls w) GetNetwork + count_list as Call \<and>
     length ts' = length ts + count_list as Call"
proof (induction as arbitrary: w ts)
  case Nil
  then show ?case by simp
next
  case (Cons a as)
  obtain c1 w1 ts1 where s: "step f a (c, w, ts) = (c1, w1, ts1)"
    by (cases "step f a (c, w, ts)")
  with Cons.prems(2) have r: "run f as (c1, w1, ts1) = (c', w', ts')" by simp
  have n1: "Settled (Inr ()) \<notin> set ts1"
    using run_keeps_settled [OF _ r] Cons.prems(3) by blast
  from step_unfinished [OF Cons.prems(1) s n1]
  have st: "c1 = c"
    "count_list (calls w1) GetNetwork = count_list (calls w) GetNetwork + (if a = Call then 1 else 0)"
    "length ts1 = length ts + (if a = Call then 1 else 0)" by simp_all
  from r st(1) have "run f as (c, w1, ts1) = (c', w', ts')" by simp
  from Cons.IH [OF Cons.prems(1) this Cons.prems(3)] st show ?case by simp
qed

lemma step_completion:
  "k < length ts \<Longrightarrow> ts ! k = AwaitCreateInstance (Inr i) \<Longrightarrow>
     step f (Resume k) (c, w, ts) =
       (c\<lparr>instance' := Some i, initialized := True\<rparr>, w, ts[k := Settled (Inr ())])"
  by simp

lemma retry_from_delays:
  "retry_from fn m d n ds w = (out, w') \<Longrightarrow>
     n \<le> attempts out \<and> attempts out \<le> max n (Suc m) \<and>
     delays out = ds @ map (\<lambda>k. d * 2 ^ (k - 1)) [n..<attempts out]"
proof (induction fn m d n ds w rule: retry_from.induct)
  case (1 fn m d n ds w)
  obtain r w1 where fw: "fn w = (r, w1)" by (cases "fn w")
  show ?case
  proof (cases r)
    case (Inr v)
    with fw "1.prems" show ?thesis by (auto simp: retry_from.simps)
  next
    case (Inl e)
    show ?thesis
    proof (cases "n > m")
      case True
      with fw Inl "1.prems" show ?thesis by (auto simp: retry_from.simps RetryPolicy_def)
    next
      case False
      then have pol: "RetryPolicy n m d = RetryAfter (d * 2 ^ (n - 1))" by (simp add: RetryPolicy_def)
      with fw Inl "1.prems"
      have rec: "retry_from fn m d (n + 1) (ds @ [d * 2 ^ (n - 1)]) w1 = (out, w')"
        by (simp add: retry_from.simps)
      from "1.IH" [OF fw [symmetric] Inl pol rec]
      have ih: "n + 1 \<le> attempts out" "attempts out \<le> max (n + 1) (Suc m)"
        "delays out = (ds @ [d * 2 ^ (n - 1)]) @ map (\<lambda>k. d * 2 ^ (k - 1)) [n + 1..<attempts out]"
        by simp_all
      have "[n..<attempts out] = n # [n + 1..<attempts out]"
        using ih(1) by (simp add: upt_conv_Cons)
      with ih False show ?thesis by simp
    qed
  qed
qed

lemma RetryPolicy_law:
  "attemptNumber \<le> maxRetries \<Longrightarrow>
     RetryPolicy attemptNumber maxRetries baseDelay = RetryAfter (baseDelay * 2 ^ (attemptNumber - 1))"
  by (simp add: RetryPolicy_def)

lemma failing_fn_run:
  "retryWithBackoff failing_fn (Some 3) (Some 1000) 0 =
     (\<lparr>result = Inl (Error ''xxxx''), attempts = 4, delays = [1000, 2000, 4000]\<rparr>, 4)"
  by (simp add: retryWithBackoff_def retry_from.simps failing_fn_def RetryPolicy_def)

section \<open>Theorems\<close>

subsection \<open>Guard of the encrypt operations\<close>

text \<open>
  C1. On a session that is not Ready (never initialized, or initialization failed, so that
  the flag is unset or there is no instance), \<open>encrypt32\<close> and \<open>encrypt64\<close> fail at once
  with the not-initialized error, and the world is returned unchanged: no call to the
  provider was made and none is logged.
\<close>

theorem encrypt_not_ready:
  "\<not> initialized c \<or> instance' c = None \<Longrightarrow>
     encrypt32 c v w = (Inl NotInitialized, w) \<and> encrypt64 c b w = (Inl NotInitialized, w)"
  by (auto simp: encrypt32_def encrypt64_def)

theorem encrypt_not_ready_witness:
  "encrypt32 (createFhevmClient ok_config) 5 world0 = (Inl NotInitialized, world0) \<and>
   encrypt64 (createFhevmClient ok_config) 5 world0 = (Inl NotInitialized, world0)"
  using encrypt_not_ready [of "createFhevmClient ok_config" 5 world0 5]
  by (simp add: createFhevmClient_def)

subsection \<open>The retry utility\<close>

text \<open>
  C2. Backoff law. Whatever the operation does, a run of the retry utility with base delay
  \<open>d\<close> makes at least one attempt and at most \<open>maxRetries + 1\<close>, and the delays it sleeps
  are, in order, \<open>d * 2 ^ (n - 1)\<close> for each attempt \<open>n\<close> from 1 up to the last but one:
  the delay before attempt \<open>n + 1\<close> is \<open>d * 2 ^ (n - 1)\<close>, and there is no delay before
  attempt 1. The policy itself gives that delay for every attempt not past exhaustion.
\<close>

theorem backoff_law:
  "(retryWithBackoff fn (Some m) (Some d) w = (out, w') \<longrightarrow>
      1 \<le> attempts out \<and> attempts out \<le> m + 1 \<and>
      delays out = map (\<lambda>n. d * 2 ^ (n - 1)) [1..<attempts out]) \<and>
   (1 \<le> n \<and> n \<le> m \<longrightarrow> RetryPolicy n m d = RetryAfter (d * 2 ^ (n - 1)))"
  using retry_from_delays [of fn m d 1 "[]" w out w'] RetryPolicy_law [of n m d]
  by (simp add: retryWithBackoff_def)

theorem backoff_law_witness:
  "delays (fst (retryWithBackoff failing_fn (Some 3) (Some 1000) 0)) = [1000, 2000, 4000] \<and>
   RetryPolicy 3 3 1000 = RetryAfter 4000"
  using backoff_law [of failing_fn 3 1000 0
      "\<lparr>result = Inl (Error ''xxxx''), attempts = 4, delays = [1000, 2000, 4000]\<rparr>" 4 3]
    failing_fn_run
  by simp

text \<open>
  C3. Retry exhaustion. With \<open>maxRetries = 3\<close>, an operation that fails on every call is
  called exactly four times, and the run ends with the result and the world of the fourth
  call: the error of the fourth attempt, as it is.
\<close>

theorem retry_exhaustion:
  assumes fails: "\<forall>w. isl (fst (fn w))"
    and run: "retryWithBackoff fn (Some 3) d w = (out, w')"
  shows "attempts out = 4 \<and> (result out, w') = fn (snd (fn (snd (fn (snd (fn w))))))"
proof -
  define b where "b = (case d of None \<Rightarrow> 1000 | Some x \<Rightarrow> x)"
  have always: "\<exists>e w1. fn u = (Inl e, w1)" for u
    using fails [rule_format, of u] by (cases "fn u") (auto simp: isl_def)
  obtain e1 w1 where a1: "fn w = (Inl e1, w1)" using always by blast
  obtain e2 w2 where a2: "fn w1 = (Inl e2, w2)" using always by blast
  obtain e3 w3 where a3: "fn w2 = (Inl e3, w3)" using always by blast
  obtain e4 w4 where a4: "fn w3 = (Inl e4, w4)" using always by blast
  have "retry_from fn 3 b 1 [] w = retry_from fn 3 b 2 [b] w1"
    using a1 by (subst retry_from.simps) (simp add: RetryPolicy_def numeral_2_eq_2)
  also have "\<dots> = retry_from fn 3 b 3 [b, b * 2] w2"
    using a2 by (subst retry_from.simps) (simp add: RetryPolicy_def)
  also have "\<dots> = retry_from fn 3 b 4 [b, b * 2, b * 4] w3"
    using a3 by (subst retry_from.simps) (simp add: RetryPolicy_def)
  also have "\<dots> = (\<lparr>result = Inl e4, attempts = 4, delays = [b, b * 2, b * 4]\<rparr>, w4)"
    using a4 by (subst retry_from.simps) (simp add: RetryPolicy_def)
  finally have "(out, w') = (\<lparr>result = Inl e4, attempts = 4, delays = [b, b * 2, b * 4]\<rparr>, w4)"
    using run by (simp add: retryWithBackoff_def b_def)
  then show ?thesis using a1 a2 a3 a4 by simp
qed

theorem retry_exhaustion_witness:
  "attempts (fst (retryWithBackoff failing_fn (Some 3) (Some 1000) 0)) = 4 \<and>
   result (fst (retryWithBackoff failing_fn (Some 3) (Some 1000) 0)) = fst (failing_fn 3) \<and>
   fst (failing_fn 3) = Inl (Error ''xxxx'')"
proof -
  have fails: "\<forall>w. isl (fst (failing_fn w))" by (simp add: failing_fn_def)
  from retry_exhaustion [OF fails failing_fn_run] show ?thesis
    by (simp add: failing_fn_run) (simp add: failing_fn_def eval_nat_numeral)
qed

subsection \<open>Encrypting on a Ready session\<close>

text \<open>
  C4, as amended. On a Ready session the encrypt call of the instance is made exactly once,
  with no retry: when it fails with cause \<open>e\<close>, \<open>encrypt32\<close> fails at once with a plain
  \<open>Error\<close> whose message is "Failed to encrypt value: " followed by the text of \<open>e\<close>. The
  cause is carried as text; there is no count of attempts.
\<close>

theorem encrypt32_single_attempt:
  "initialized c \<Longrightarrow> instance' c = Some i \<Longrightarrow> instance_encrypt32 i v (ext w) = (Inl e, x') \<Longrightarrow>
     encrypt32 c v w =
       (Inl (Error (''Failed to encrypt value: '' @ toString e)),
        w\<lparr>ext := x', calls := calls w @ [Encrypt32 v]\<rparr>)"
  by (simp add: encrypt32_def perform_def encrypt_failed_def)

theorem encrypt32_single_attempt_witness:
  "encrypt32 flaky_client 7 nat_world0 =
     (Inl (Error (''Failed to encrypt value: '' @ toString (Error ''timeout''))),
      nat_world0\<lparr>ext := 1, calls := calls nat_world0 @ [Encrypt32 7]\<rparr>)"
  using encrypt32_single_attempt [of flaky_client flaky_instance 7 nat_world0 "Error ''timeout''" 1]
  by (simp add: flaky_client_def flaky_instance_def nat_world0_def)

text \<open>
  The claim as stated fails: the instance below times out on its first call only, so a
  second attempt would succeed, and \<open>encrypt32\<close> has failed after one call.
\<close>

theorem encrypt32_retry_counterexample:
  "encrypt32 flaky_client 7 nat_world0 =
     (Inl (Error ''Failed to encrypt value: Error: timeout''),
      \<lparr>ext = 1, calls = [Encrypt32 7], console = []\<rparr>) \<and>
   fst (encrypt32 flaky_client 7 \<lparr>ext = 1, calls = [Encrypt32 7], console = []\<rparr>) =
     Inr \<lparr>data = [1, 2, 3], handles = []\<rparr>"
  by (simp add: encrypt32_def flaky_client_def flaky_instance_def nat_world0_def perform_def
        encrypt_failed_def)

text \<open>
  C6, as amended. \<open>encrypt32\<close> checks no range: on a Ready session it makes, for every
  value, exactly one encrypt call of the instance with that value unchanged, and it fails
  exactly when that call fails. This holds for 0, for \<open>2 ^ 32 - 1\<close> and for \<open>2 ^ 32\<close> alike.
\<close>

theorem encrypt32_forwards_value:
  "initialized c \<Longrightarrow> instance' c = Some i \<Longrightarrow>
     calls (snd (encrypt32 c v w)) = calls w @ [Encrypt32 v] \<and>
     isl (fst (encrypt32 c v w)) = isl (fst (instance_encrypt32 i v (ext w)))"
  by (simp add: encrypt32_def perform_def split: prod.splits sum.splits)

theorem encrypt32_forwards_value_witness:
  "calls (snd (encrypt32 ready_client (2 ^ 32 - 1) world0)) = calls world0 @ [Encrypt32 (2 ^ 32 - 1)] \<and>
   isl (fst (encrypt32 ready_client (2 ^ 32 - 1) world0)) =
     isl (fst (instance_encrypt32 ok_instance (2 ^ 32 - 1) (ext world0)))"
  using encrypt32_forwards_value [of ready_client ok_instance "2 ^ 32 - 1" world0]
  by (simp add: ready_client_def)

text \<open>
  The claim as stated fails: at \<open>2 ^ 32\<close> the call to the instance is made, and with an
  instance that accepts the value the operation succeeds.
\<close>

theorem encrypt32_range_counterexample:
  "\<not> isl (fst (encrypt32 ready_client (2 ^ 32) world0)) \<and>
   calls (snd (encrypt32 ready_client (2 ^ 32) world0)) = [Encrypt32 4294967296]"
  by (simp add: encrypt32_def ready_client_def world0_def perform_def ok_instance_def)




text \<open>
  C10. A successful \<open>encrypt32\<close> or \<open>encrypt64\<close> returns an empty list of handles.
\<close>

theorem encrypt_handles_empty:
  "(encrypt32 c v w = (Inr r, w') \<longrightarrow> handles r = []) \<and>
   (encrypt64 c b w = (Inr r', w'') \<longrightarrow> handles r' = [])"
  by (auto simp: encrypt32_def encrypt64_def split: if_splits option.splits prod.splits sum.splits)

theorem encrypt_handles_empty_witness:
  "fst (encrypt32 ready_client 1000 world0) = Inr \<lparr>data = [1, 2, 3], handles = []\<rparr> \<and>
   fst (encrypt64 ready_client 1000 world0) = Inr \<lparr>data = [1, 2, 3], handles = []\<rparr> \<and>
   handles (projr (fst (encrypt32 ready_client 1000 world0))) = [] \<and>
   handles (projr (fst (encrypt64 ready_client 1000 world0))) = []"
proof -
  have a: "encrypt32 ready_client 1000 world0 =
      (Inr \<lparr>data = [1, 2, 3], handles = []\<rparr>, world0\<lparr>calls := [Encrypt32 1000]\<rparr>)"
    by (simp add: encrypt32_def ready_client_def world0_def perform_def ok_instance_def)
  have b: "encrypt64 ready_client 1000 world0 =
      (Inr \<lparr>data = [1, 2, 3], handles = []\<rparr>, world0\<lparr>calls := [Encrypt32 1000]\<rparr>)"
    by (simp add: encrypt64_def ready_client_def world0_def perform_def ok_instance_def
          Number_bigint_exact)
  from encrypt_handles_empty [of ready_client 1000 world0 "\<lparr>data = [1, 2, 3], handles = []\<rparr>"
      "world0\<lparr>calls := [Encrypt32 1000]\<rparr>" 1000 "\<lparr>data = [1, 2, 3], handles = []\<rparr>"
      "world0\<lparr>calls := [Encrypt32 1000]\<rparr>"] a b
  show ?thesis by simp
qed

subsection \<open>Initialization\<close>

text \<open>
  C5. \<open>initialize\<close> is idempotent after success: when a call has succeeded, the next call
  on the resulting client succeeds too and returns the client and the world unchanged, so
  it makes no call to a collaborator. A failure of \<open>getNetwork\<close>, or of \<open>createInstance\<close>,
  makes \<open>initialize\<close> fail and leaves the client as it was. After a failed call the client
  is as before, with the flag unset, and the next call on it, in any world, starts over
  with a \<open>getNetwork\<close> call; when \<open>getNetwork\<close> and \<open>createInstance\<close> succeed this time,
  it makes the calls of a whole initialization (\<open>getNetwork\<close>, \<open>getCode\<close>,
  \<open>createInstance\<close>) and succeeds, with the instance stored and the flag set.
\<close>

theorem initialize_idempotent:
  "(initialize f c w = (Inr (), c1, w1) \<longrightarrow> initialize f c1 w1 = (Inr (), c1, w1)) \<and>
   (\<not> initialized c \<and> getNetwork (provider (config c)) (ext w) = (Inl e, x1) \<longrightarrow>
      isl (fst (initialize f c w)) \<and> fst (snd (initialize f c w)) = c) \<and>
   (\<not> initialized c \<and> getNetwork (provider (config c)) (ext w) = (Inr chainId, x1) \<and>
    getCode (provider (config c)) (acl_of c) x1 = (rc, x2) \<and>
    f (Number_bigint chainId) ''0x'' (gatewayUrl (config c)) x2 = (Inl e, x3) \<longrightarrow>
      isl (fst (initialize f c w)) \<and> fst (snd (initialize f c w)) = c) \<and>
   (initialize f c w = (Inl err, c1, w1) \<longrightarrow>
      c1 = c \<and> \<not> initialized c1 \<and>
      (\<exists>rest. calls (snd (snd (initialize f c1 w2))) = calls w2 @ GetNetwork # rest) \<and>
      (getNetwork (provider (config c1)) (ext w2) = (Inr chainId', y1) \<and>
       getCode (provider (config c1)) (acl_of c1) y1 = (rc', y2) \<and>
       f (Number_bigint chainId') ''0x'' (gatewayUrl (config c1)) y2 = (Inr i, y3) \<longrightarrow>
         fst (initialize f c1 w2) = Inr () \<and>
         fst (snd (initialize f c1 w2)) = c\<lparr>instance' := Some i, initialized := True\<rparr> \<and>
         calls (snd (snd (initialize f c1 w2))) =
           calls w2 @ [GetNetwork, GetCode (acl_of c1),
                       CreateInstance (Number_bigint chainId') ''0x'' (gatewayUrl (config c1))]))"
proof (intro conjI impI)
  assume "initialize f c w = (Inr (), c1, w1)"
  then show "initialize f c1 w1 = (Inr (), c1, w1)"
    using initialize_success_sets_flag [of f c w "()" c1 w1] initialize_ready [of c1 f w1] by simp
next
  assume "\<not> initialized c \<and> getNetwork (provider (config c)) (ext w) = (Inl e, x1)"
  then have "initialize f c w =
       (Inl (Error (''Failed to initialize fhEVM: '' @ toString e)), c,
        w\<lparr>ext := x1, calls := calls w @ [GetNetwork]\<rparr>)"
    using initialize_network_failure [of c w e x1 f] by simp
  then show "isl (fst (initialize f c w))" "fst (snd (initialize f c w)) = c" by simp_all
next
  assume a: "\<not> initialized c \<and> getNetwork (provider (config c)) (ext w) = (Inr chainId, x1) \<and>
    getCode (provider (config c)) (acl_of c) x1 = (rc, x2) \<and>
    f (Number_bigint chainId) ''0x'' (gatewayUrl (config c)) x2 = (Inl e, x3)"
  from initialize_instance_outcome [of c w chainId x1 rc x2 f "Inl e" x3] a
  show "isl (fst (initialize f c w))" "fst (snd (initialize f c w)) = c" by simp_all
next
  assume a: "initialize f c w = (Inl err, c1, w1)"
  from initialize_failure_keeps_client [OF a] show c1: "c1 = c" and u: "\<not> initialized c1" by simp_all
  from initialize_first_call [OF u, of f w2]
  show "\<exists>rest. calls (snd (snd (initialize f c1 w2))) = calls w2 @ GetNetwork # rest" .
  assume b: "getNetwork (provider (config c1)) (ext w2) = (Inr chainId', y1) \<and>
       getCode (provider (config c1)) (acl_of c1) y1 = (rc', y2) \<and>
       f (Number_bigint chainId') ''0x'' (gatewayUrl (config c1)) y2 = (Inr i, y3)"
  from initialize_instance_outcome [of c1 w2 chainId' y1 rc' y2 f "Inr i" y3] u b c1
  show "fst (initialize f c1 w2) = Inr ()"
    "fst (snd (initialize f c1 w2)) = c\<lparr>instance' := Some i, initialized := True\<rparr>"
    "calls (snd (snd (initialize f c1 w2))) =
           calls w2 @ [GetNetwork, GetCode (acl_of c1),
                       CreateInstance (Number_bigint chainId') ''0x'' (gatewayUrl (config c1))]"
    by simp_all
qed

theorem initialize_idempotent_witness:
  "initialize ok_createInstance (createFhevmClient ok_config) world0 =
     (Inr (), ready_client,
      world0\<lparr>calls := [GetNetwork, GetCode default_aclAddress, CreateInstance 11155111 ''0x'' None]\<rparr>) \<and>
   initialize ok_createInstance ready_client
       (world0\<lparr>calls := [GetNetwork, GetCode default_aclAddress, CreateInstance 11155111 ''0x'' None]\<rparr>) =
     (Inr (), ready_client,
      world0\<lparr>calls := [GetNetwork, GetCode default_aclAddress, CreateInstance 11155111 ''0x'' None]\<rparr>) \<and>
   isl (fst (initialize ok_createInstance (createFhevmClient flaky_config) nat_world0)) \<and>
   fst (snd (initialize ok_createInstance (createFhevmClient flaky_config) nat_world0)) =
     createFhevmClient flaky_config \<and>
   fst (initialize ok_createInstance (createFhevmClient flaky_config)
          \<lparr>ext = 1, calls = [GetNetwork], console = []\<rparr>) = Inr () \<and>
   initialized (fst (snd (initialize ok_createInstance (createFhevmClient flaky_config)
          \<lparr>ext = 1, calls = [GetNetwork], console = []\<rparr>))) \<and>
   calls (snd (snd (initialize ok_createInstance (createFhevmClient flaky_config)
          \<lparr>ext = 1, calls = [GetNetwork], console = []\<rparr>))) =
     [GetNetwork, GetNetwork, GetCode default_aclAddress, CreateInstance 1 ''0x'' None] \<and>
   isl (fst (initialize failing_createInstance (createFhevmClient ok_config) world0)) \<and>
   fst (snd (initialize failing_createInstance (createFhevmClient ok_config) world0)) =
     createFhevmClient ok_config"
proof -
  let ?W = "world0\<lparr>calls := [GetNetwork, GetCode default_aclAddress, CreateInstance 11155111 ''0x'' None]\<rparr>"
  let ?cf = "createFhevmClient flaky_config :: nat FhevmClient"
  let ?co = "createFhevmClient ok_config :: unit FhevmClient"
  let ?w1 = "\<lparr>ext = 1, calls = [GetNetwork], console = []\<rparr> :: nat world"
  have a: "initialize ok_createInstance ?co world0 = (Inr (), ready_client, ?W)"
    by (simp add: initialize_def createFhevmClient_def ok_config_def ok_provider_def world0_def
          perform_def getPublicKey_def getPublicKey_try_def acl_of_def ok_createInstance_def
          ready_client_def Number_bigint_exact)
  from initialize_idempotent [of ok_createInstance ?co world0 ready_client ?W] a
  have s: "initialize ok_createInstance ready_client ?W = (Inr (), ready_client, ?W)" by simp
  have uf: "\<not> initialized ?cf" by (simp add: createFhevmClient_def)
  have n0: "getNetwork (provider (config ?cf)) (ext nat_world0) = (Inl (Error ''offline''), 1)"
    by (simp add: createFhevmClient_def flaky_config_def nat_world0_def)
  from initialize_idempotent [where f = ok_createInstance and c = ?cf and w = nat_world0
      and e = "Error ''offline''" and ?x1.0 = 1] uf n0
  have f1: "isl (fst (initialize ok_createInstance ?cf nat_world0))"
    "fst (snd (initialize ok_createInstance ?cf nat_world0)) = ?cf" by simp_all
  have first: "initialize ok_createInstance ?cf nat_world0 =
      (Inl (Error ''Failed to initialize fhEVM: Error: offline''), ?cf, ?w1)"
    by (simp add: initialize_def createFhevmClient_def flaky_config_def nat_world0_def
          perform_def init_failed_def)
  have n1: "getNetwork (provider (config ?cf)) (ext ?w1) = (Inr 1, 2)"
    by (simp add: createFhevmClient_def flaky_config_def)
  have c1: "getCode (provider (config ?cf)) (acl_of ?cf) 2 = (Inr ''0x6080'', 3)"
    by (simp add: createFhevmClient_def flaky_config_def)
  have i1: "ok_createInstance (Number_bigint 1) ''0x'' (gatewayUrl (config ?cf)) (3::nat) = (Inr ok_instance, 3)"
    by (simp add: ok_createInstance_def)
  have acl: "acl_of ?cf = default_aclAddress" "gatewayUrl (config ?cf) = None"
    by (simp_all add: acl_of_def createFhevmClient_def flaky_config_def ok_config_def)
  from initialize_idempotent [where f = ok_createInstance and c = ?cf and w = nat_world0
      and ?c1.0 = ?cf and ?w1.0 = ?w1 and err = "Error ''Failed to initialize fhEVM: Error: offline''"
      and ?w2.0 = ?w1 and chainId' = 1 and ?y1.0 = 2 and rc' = "Inr ''0x6080''" and ?y2.0 = 3
      and i = ok_instance and ?y3.0 = 3]
    first n1 c1 i1
  have f2: "fst (initialize ok_createInstance ?cf ?w1) = Inr ()"
    "fst (snd (initialize ok_createInstance ?cf ?w1)) = ?cf\<lparr>instance' := Some ok_instance, initialized := True\<rparr>"
    "calls (snd (snd (initialize ok_createInstance ?cf ?w1))) =
       [GetNetwork, GetNetwork, GetCode default_aclAddress, CreateInstance 1 ''0x'' None]"
    by (simp_all add: acl Number_bigint_exact)
  have uo: "\<not> initialized ?co" by (simp add: createFhevmClient_def)
  have n2: "getNetwork (provider (config ?co)) (ext world0) = (Inr 11155111, ())"
    by (simp add: createFhevmClient_def ok_config_def ok_provider_def)
  have c2: "getCode (provider (config ?co)) (acl_of ?co) () = (Inr ''0x6080'', ())"
    by (simp add: createFhevmClient_def ok_config_def ok_provider_def)
  have i2: "failing_createInstance (Number_bigint 11155111) ''0x'' (gatewayUrl (config ?co)) () =
      (Inl (Error ''bad public key''), ())"
    by (simp add: failing_createInstance_def)
  from initialize_idempotent [where f = failing_createInstance and c = ?co and w = world0
      and chainId = 11155111 and ?x1.0 = "()" and rc = "Inr ''0x6080''" and ?x2.0 = "()"
      and e = "Error ''bad public key''" and ?x3.0 = "()"] uo n2 c2 i2
  have f3: "isl (fst (initialize failing_createInstance ?co world0))"
    "fst (snd (initialize failing_createInstance ?co world0)) = ?co" by simp_all
  from a s f1 f2 f3 show ?thesis by simp
qed

text \<open>
  C7, as amended. On a client whose flag is unset, a failure of \<open>getNetwork\<close>, and a
  failure of the \<open>createInstance\<close> call that \<open>initialize\<close> makes, reach the caller as an
  \<open>Error\<close> whose message is "Failed to initialize fhEVM: " followed by the text of the
  cause, and the client is unchanged; when both calls succeed \<open>initialize\<close> succeeds,
  whatever \<open>getCode\<close> answered. A failure of the public key fetch does not reach the
  caller: \<open>getPublicKey\<close> returns the placeholder \<open>0x\<close> in every case, with a warning on
  the console unless \<open>getCode\<close> returned contract code, and that placeholder is the key
  \<open>createInstance\<close> is called with.
\<close>

theorem initialize_failure_causes:
  "(\<not> initialized c \<and> getNetwork (provider (config c)) (ext w) = (Inl e, x1) \<longrightarrow>
      initialize f c w =
        (Inl (Error (''Failed to initialize fhEVM: '' @ toString e)), c,
         w\<lparr>ext := x1, calls := calls w @ [GetNetwork]\<rparr>)) \<and>
   (\<not> initialized c \<and> getNetwork (provider (config c)) (ext w) = (Inr chainId, x1) \<and>
    getCode (provider (config c)) (acl_of c) x1 = (rc, x2) \<and>
    f (Number_bigint chainId) ''0x'' (gatewayUrl (config c)) x2 = (ri, x3) \<longrightarrow>
      fst (getPublicKey c (w\<lparr>ext := x1, calls := calls w @ [GetNetwork]\<rparr>)) = ''0x'' \<and>
      calls (snd (snd (initialize f c w))) =
        calls w @ [GetNetwork, GetCode (acl_of c),
                   CreateInstance (Number_bigint chainId) ''0x'' (gatewayUrl (config c))] \<and>
      console (snd (snd (initialize f c w))) =
        console w @ (if \<exists>code. rc = Inr code \<and> code \<noteq> ''0x'' then []
                     else [''Failed to fetch public key, using default'']) \<and>
      fst (initialize f c w) =
        (case ri of Inl e' \<Rightarrow> Inl (Error (''Failed to initialize fhEVM: '' @ toString e'))
                  | Inr i \<Rightarrow> Inr ()) \<and>
      fst (snd (initialize f c w)) =
        (case ri of Inl e' \<Rightarrow> c | Inr i \<Rightarrow> c\<lparr>instance' := Some i, initialized := True\<rparr>))"
  using initialize_network_failure [of c w e x1 f]
    initialize_instance_outcome [of c w chainId x1 rc x2 f ri x3]
    getPublicKey_placeholder [of c "w\<lparr>ext := x1, calls := calls w @ [GetNetwork]\<rparr>"]
  by blast

theorem initialize_failure_causes_witness:
  "initialize ok_createInstance (createFhevmClient flaky_config) nat_world0 =
     (Inl (Error (''Failed to initialize fhEVM: '' @ toString (Error ''offline''))),
      createFhevmClient flaky_config, nat_world0\<lparr>ext := 1, calls := calls nat_world0 @ [GetNetwork]\<rparr>) \<and>
   fst (initialize failing_createInstance (createFhevmClient ok_config) world0) =
     Inl (Error (''Failed to initialize fhEVM: '' @ toString (Error ''bad public key''))) \<and>
   fst (snd (initialize failing_createInstance (createFhevmClient ok_config) world0)) =
     createFhevmClient ok_config \<and>
   fst (initialize ok_createInstance (createFhevmClient nocode_config) world0) = Inr () \<and>
   console (snd (snd (initialize ok_createInstance (createFhevmClient nocode_config) world0))) =
     console world0 @ [''Failed to fetch public key, using default'']"
proof -
  let ?cf = "createFhevmClient flaky_config :: nat FhevmClient"
  let ?co = "createFhevmClient ok_config :: unit FhevmClient"
  let ?cn = "createFhevmClient nocode_config :: unit FhevmClient"
  have uf: "\<not> initialized ?cf" and uo: "\<not> initialized ?co" and un: "\<not> initialized ?cn"
    by (simp_all add: createFhevmClient_def)
  have n0: "getNetwork (provider (config ?cf)) (ext nat_world0) = (Inl (Error ''offline''), 1)"
    by (simp add: createFhevmClient_def flaky_config_def nat_world0_def)
  from initialize_failure_causes [where c = ?cf and w = nat_world0 and e = "Error ''offline''"
      and ?x1.0 = 1 and f = ok_createInstance] uf n0
  have a: "initialize ok_createInstance ?cf nat_world0 =
     (Inl (Error (''Failed to initialize fhEVM: '' @ toString (Error ''offline''))),
      ?cf, nat_world0\<lparr>ext := 1, calls := calls nat_world0 @ [GetNetwork]\<rparr>)" by simp
  have n2: "getNetwork (provider (config ?co)) (ext world0) = (Inr 11155111, ())"
    by (simp add: createFhevmClient_def ok_config_def ok_provider_def)
  have c2: "getCode (provider (config ?co)) (acl_of ?co) () = (Inr ''0x6080'', ())"
    by (simp add: createFhevmClient_def ok_config_def ok_provider_def)
  have i2: "failing_createInstance (Number_bigint 11155111) ''0x'' (gatewayUrl (config ?co)) () =
      (Inl (Error ''bad public key''), ())"
    by (simp add: failing_createInstance_def)
  from initialize_failure_causes [where c = ?co and w = world0 and f = failing_createInstance
      and chainId = 11155111 and ?x1.0 = "()" and rc = "Inr ''0x6080''" and ?x2.0 = "()"
      and ri = "Inl (Error ''bad public key'')" and ?x3.0 = "()"] uo n2 c2 i2
  have b: "fst (initialize failing_createInstance ?co world0) =
     Inl (Error (''Failed to initialize fhEVM: '' @ toString (Error ''bad public key'')))"
    "fst (snd (initialize failing_createInstance ?co world0)) = ?co" by simp_all
  have n3: "getNetwork (provider (config ?cn)) (ext world0) = (Inr 11155111, ())"
    by (simp add: createFhevmClient_def nocode_config_def)
  have c3: "getCode (provider (config ?cn)) (acl_of ?cn) () = (Inl (Error ''network down''), ())"
    by (simp add: createFhevmClient_def nocode_config_def)
  have i3: "ok_createInstance (Number_bigint 11155111) ''0x'' (gatewayUrl (config ?cn)) () =
      (Inr ok_instance, ())"
    by (simp add: ok_createInstance_def)
  from initialize_failure_causes [where c = ?cn and w = world0 and f = ok_createInstance
      and chainId = 11155111 and ?x1.0 = "()" and rc = "Inl (Error ''network down'')" and ?x2.0 = "()"
      and ri = "Inr ok_instance" and ?x3.0 = "()"] un n3 c3 i3
  have c: "fst (initialize ok_createInstance ?cn world0) = Inr ()"
    "console (snd (snd (initialize ok_createInstance ?cn world0))) =
     console world0 @ [''Failed to fetch public key, using default'']" by simp_all
  from a b c show ?thesis by simp
qed

text \<open>
  The claim as stated fails: with a provider whose \<open>getCode\<close> fails, \<open>initialize\<close>
  succeeds, having called \<open>createInstance\<close> with the placeholder key and warned on the
  console.
\<close>

theorem initialize_swallows_counterexample:
  "fst (initialize ok_createInstance (createFhevmClient nocode_config) world0) = Inr () \<and>
   initialized (fst (snd (initialize ok_createInstance (createFhevmClient nocode_config) world0))) \<and>
   calls (snd (snd (initialize ok_createInstance (createFhevmClient nocode_config) world0))) =
     [GetNetwork, GetCode default_aclAddress, CreateInstance 11155111 ''0x'' None] \<and>
   console (snd (snd (initialize ok_createInstance (createFhevmClient nocode_config) world0))) =
     [''Failed to fetch public key, using default'']"
  by (simp add: initialize_def createFhevmClient_def nocode_config_def ok_config_def world0_def
        perform_def getPublicKey_def getPublicKey_try_def acl_of_def console_warn_def
        ok_createInstance_def Number_bigint_exact)

text \<open>
  C9, as amended. An initialization in flight is not shared. \<open>initialize\<close> is guarded only
  by the flag, and the flag is set when a task is resumed from a successful
  \<open>createInstance\<close>, that is when an initialization completes successfully. On a client
  whose flag is unset, take any schedule of invocations and resumptions after which no
  task has settled successfully: the client is unchanged, and every invocation has made a
  \<open>getNetwork\<close> call of its own, so the log has as many more \<open>getNetwork\<close> calls as the
  schedule has invocations. An invocation on a client whose flag is set settles at once
  without a call. Every run of the effect of \<open>FhevmProvider\<close> builds a client of its own
  and starts with a \<open>getNetwork\<close> call.
\<close>

theorem initialize_calls_not_shared:
  "(\<not> initialized c \<and> run f as (c, w, ts) = (c', w', ts') \<and> Settled (Inr ()) \<notin> set ts' \<longrightarrow>
      c' = c \<and>
      count_list (calls w') GetNetwork = count_list (calls w) GetNetwork + count_list as Call \<and>
      length ts' = length ts + count_list as Call) \<and>
   (k < length ts \<and> ts ! k = AwaitCreateInstance (Inr i) \<longrightarrow>
      step f (Resume k) (c, w, ts) =
        (c\<lparr>instance' := Some i, initialized := True\<rparr>, w, ts[k := Settled (Inr ())])) \<and>
   (initialized c \<longrightarrow> step f Call (c, w, ts) = (c, w, ts @ [Settled (Inr ())])) \<and>
   (\<not> initialized c \<and> run f (replicate n Call) (c, w, ts) = (c'', w'', ts'') \<longrightarrow>
      c'' = c \<and> calls w'' = calls w @ replicate n GetNetwork \<and> length ts'' = length ts + n) \<and>
   (\<exists>rest. calls (snd (FhevmProvider_init f cfg ctx w)) = calls w @ GetNetwork # rest)"
  using run_unfinished [of c f as w ts c' w' ts'] step_completion [of k ts i f c w]
    run_Calls_uninitialized [of c f n w ts c'' w'' ts''] FhevmProvider_init_calls [of f cfg ctx w]
  by (auto simp: initialize_start_def)

theorem initialize_calls_not_shared_witness:
  "run ok_createInstance interleaved_calls (createFhevmClient ok_config, world0, []) =
     (createFhevmClient ok_config,
      world0\<lparr>calls := [GetNetwork, GetCode default_aclAddress, GetNetwork,
                        CreateInstance 11155111 ''0x'' None, GetNetwork]\<rparr>,
      [AwaitCreateInstance (Inr ok_instance), AwaitGetNetwork (Inr 11155111),
       AwaitGetNetwork (Inr 11155111)]) \<and>
   count_list (calls (fst (snd (run ok_createInstance interleaved_calls
       (createFhevmClient ok_config, world0, []))))) GetNetwork = 3 \<and>
   step ok_createInstance (Resume 0)
       (createFhevmClient ok_config, world0, [AwaitCreateInstance (Inr ok_instance)]) =
     (ready_client, world0, [Settled (Inr ())]) \<and>
   step ok_createInstance Call (ready_client, world0, []) = (ready_client, world0, [Settled (Inr ())]) \<and>
   calls (fst (snd (run ok_createInstance (replicate 5 Call) (createFhevmClient ok_config, world0, [])))) =
     [GetNetwork, GetNetwork, GetNetwork, GetNetwork, GetNetwork]"
proof -
  let ?c = "createFhevmClient ok_config :: unit FhevmClient"
  let ?w = "world0\<lparr>calls := [GetNetwork, GetCode default_aclAddress, GetNetwork,
                        CreateInstance 11155111 ''0x'' None, GetNetwork]\<rparr>"
  let ?ts = "[AwaitCreateInstance (Inr ok_instance), AwaitGetNetwork (Inr 11155111),
       AwaitGetNetwork (Inr 11155111)] :: unit init_task list"
  let ?w5 = "world0\<lparr>calls := [GetNetwork, GetNetwork, GetNetwork, GetNetwork, GetNetwork]\<rparr>"
  let ?ts5 = "[AwaitGetNetwork (Inr 11155111), AwaitGetNetwork (Inr 11155111),
       AwaitGetNetwork (Inr 11155111), AwaitGetNetwork (Inr 11155111),
       AwaitGetNetwork (Inr 11155111)] :: unit init_task list"
  have u: "\<not> initialized ?c" by (simp add: createFhevmClient_def)
  have i: "initialized ready_client" by (simp add: ready_client_def)
  have r: "run ok_createInstance interleaved_calls (?c, world0, []) = (?c, ?w, ?ts)"
    by (simp add: interleaved_calls_def initialize_start_def createFhevmClient_def ok_config_def
          ok_provider_def world0_def perform_def acl_of_def ok_createInstance_def
          Number_bigint_exact)
  have n: "Settled (Inr ()) \<notin> set ?ts" by simp
  have cnt: "count_list interleaved_calls Call = 3" by (simp add: interleaved_calls_def)
  have five: "replicate 5 Call = [Call, Call, Call, Call, Call]" by (simp add: eval_nat_numeral)
  have r5: "run ok_createInstance (replicate 5 Call) (?c, world0, []) = (?c, ?w5, ?ts5)"
    unfolding five
    by (simp add: initialize_start_def createFhevmClient_def ok_config_def ok_provider_def
          world0_def perform_def)
  have rc: "?c\<lparr>instance' := Some ok_instance, initialized := True\<rparr> = ready_client"
    by (simp add: createFhevmClient_def ready_client_def)
  from initialize_calls_not_shared [of ?c ok_createInstance interleaved_calls world0 "[]" ?c ?w ?ts]
    u r n cnt
  have a: "count_list (calls ?w) GetNetwork = 3" by (simp add: world0_def)
  from initialize_calls_not_shared [of ?c ok_createInstance "[]" world0
      "[AwaitCreateInstance (Inr ok_instance)]" ?c world0 "[AwaitCreateInstance (Inr ok_instance)]"
      0 ok_instance] rc
  have b: "step ok_createInstance (Resume 0) (?c, world0, [AwaitCreateInstance (Inr ok_instance)]) =
     (ready_client, world0, [Settled (Inr ())])" by simp
  from initialize_calls_not_shared [of ready_client ok_createInstance "[]" world0 "[]"] i
  have c: "step ok_createInstance Call (ready_client, world0, []) = (ready_client, world0, [Settled (Inr ())])"
    by simp
  from initialize_calls_not_shared [of ?c ok_createInstance "[]" world0 "[]" ?c world0 "[]"
      0 ok_instance 5 ?c ?w5 ?ts5] u r5
  have d: "calls ?w5 = calls world0 @ replicate 5 GetNetwork" by simp
  from a b c d r r5 show ?thesis by (simp add: world0_def)
qed

text \<open>
  The claim as stated fails: five invocations before the first has settled, all resumed to
  the end, make five calls of each of \<open>getNetwork\<close>, \<open>getCode\<close> and \<open>createInstance\<close>.
\<close>

theorem five_calls_counterexample:
  "calls (fst (snd (run ok_createInstance five_calls (createFhevmClient ok_config, world0, [])))) =
     replicate 5 GetNetwork @ replicate 5 (GetCode default_aclAddress) @
     replicate 5 (CreateInstance 11155111 ''0x'' None)"
  by (simp add: five_calls_def createFhevmClient_def ok_config_def ok_provider_def world0_def
      initialize_start_def perform_def acl_of_def console_warn_def ok_createInstance_def
      Number_bigint_exact eval_nat_numeral)

end
